theory Spec2Isabelle
  imports Complex_Main
begin

section \<open>The Page Driver capability\<close>

text \<open>
  The check library of \<^verbatim>\<open>testingRandomUser.js\<close> and the helper of \<^verbatim>\<open>taiko-login.js\<close>
  drive a browser page through an injected Playwright \<^verbatim>\<open>page\<close> object. The model takes that
  object as a record of operations over an abstract page state \<open>'s\<close> and abstract element
  handles \<open>'e\<close>, so that every theorem holds for every behaviour of the driver.

  An operation that the source awaits either throws (\<open>Inl\<close> of a fault) or yields a value.
  Navigation, clicks and timed waits return the next page state; queries read the current
  state. Changes of the page that happen on their own between two driver calls are not
  modelled. Numbers are real numbers: the rounding of IEEE doubles is not modelled, and
  the theorems on the centring condition state only comparisons that rounding to the
  nearest double preserves.
\<close>

datatype fault = Fault string

record viewport =
  vp_width :: real
  vp_height :: real

record bounding_box =
  box_x :: real
  box_y :: real
  box_width :: real
  box_height :: real

text \<open>
  A selector argument is \<open>Some\<close> string, or \<open>None\<close> for the JavaScript value
  \<^verbatim>\<open>undefined\<close> (what \<^verbatim>\<open>sel.userCard\<close> yields when the key is missing from the selector map).
\<close>

type_synonym selector_arg = "string option"

record ('s, 'e) page_driver =
  page_url :: "'s \<Rightarrow> string"
  page_goto :: "string \<Rightarrow> 's \<Rightarrow> fault + 's"
  page_query :: "selector_arg \<Rightarrow> 's \<Rightarrow> fault + 'e option"
  page_query_all :: "selector_arg \<Rightarrow> 's \<Rightarrow> fault + 'e list"
  page_viewportSize :: "'s \<Rightarrow> viewport option"
  page_waitForTimeout :: "nat \<Rightarrow> 's \<Rightarrow> fault + 's"
  el_query :: "'e \<Rightarrow> selector_arg \<Rightarrow> 's \<Rightarrow> fault + 'e option"
  el_query_all :: "'e \<Rightarrow> selector_arg \<Rightarrow> 's \<Rightarrow> fault + 'e list"
  el_click :: "'e \<Rightarrow> 's \<Rightarrow> fault + 's"
  el_boundingBox :: "'e \<Rightarrow> 's \<Rightarrow> fault + bounding_box option"
  el_getAttribute :: "'e \<Rightarrow> string \<Rightarrow> 's \<Rightarrow> fault + string option"
  el_computedStyle :: "'e \<Rightarrow> string \<Rightarrow> 's \<Rightarrow> fault + string"

text \<open>
  \<open>page_query\<close> is \<^verbatim>\<open>page.$\<close>, \<open>page_query_all\<close> is \<^verbatim>\<open>page.$$\<close>, \<open>el_query\<close> and
  \<open>el_query_all\<close> are the same on an element handle, and \<open>el_computedStyle e p\<close> is
  \<^verbatim>\<open>e.evaluate((el) => window.getComputedStyle(el)[p])\<close>, a string (so the
  \<^verbatim>\<open>|| ''\<close> of the source leaves it as it is). \<^verbatim>\<open>page.url()\<close> and \<^verbatim>\<open>page.viewportSize()\<close>
  are synchronous reads of the state.

  \<open>await m k\<close> is \<^verbatim>\<open>const x = await m; k(x)\<close>: a rejected promise leaves the function at once.
\<close>

definition await :: "fault + 'a \<Rightarrow> ('a \<Rightarrow> fault + 'b) \<Rightarrow> fault + 'b" where
  "await m k = (case m of Inl f \<Rightarrow> Inl f | Inr a \<Rightarrow> k a)"

section \<open>Results and configuration\<close>

text \<open>The \<^verbatim>\<open>details\<close> payloads the nine checks build, one constructor per shape.\<close>

datatype details =
    Count nat
  | Index nat
  | Deltas real real viewport
  | TitleText bool bool
  | SearchControls bool bool bool nat nat
  | Opacity string string string
  | Anchors nat
  | Bars nat
  | AntiBot bool bool

record check_result =
  ok :: bool
  message :: string
  details :: "details option"

record report =
  overall_ok :: bool
  report_details :: "(string \<times> check_result) list"

type_synonym selectors = "string \<rightharpoonup> string"

record config =
  cfg_url :: string
  cfg_selectors :: selectors

text \<open>
  The caller's \<^verbatim>\<open>options\<close> object: each of the two top-level keys is present or not. A
  key that is present holds a value of its type (a string, an object with string values);
  a selector object may hold any subset of the selector keys.
\<close>

record options =
  opt_url :: "string option"
  opt_selectors :: "selectors option"

definition DEFAULT_OPTIONS :: config where
  "DEFAULT_OPTIONS = \<lparr>
     cfg_url = ''http://localhost:3000'',
     cfg_selectors = [
       ''userCard'' \<mapsto> ''.user-card'',
       ''userName'' \<mapsto> ''.user-name'',
       ''userEmail'' \<mapsto> ''.user-email'',
       ''userNationality'' \<mapsto> ''.user-nationality'',
       ''refresh'' \<mapsto> ''#refresh'',
       ''navbarSecondItem'' \<mapsto> ''nav >> nth=1'',
       ''userPhotoImg'' \<mapsto> ''.user-photo img'',
       ''documentation'' \<mapsto> ''#documentation, .documentation'',
       ''versionsNav'' \<mapsto>
         ''nav >> text=Versioni, nav >> text=RandomUser Versions, nav >> text=versioni'',
       ''accessChart'' \<mapsto> ''.access-chart, #access-chart'',
       ''donateSection'' \<mapsto> ''#donate, .donate''] \<rparr>"

text \<open>
  \<^verbatim>\<open>{ ...DEFAULT_OPTIONS, ...options }\<close>: the spread copies the top-level keys of the
  defaults and then those of the caller's object over them, key by key.
\<close>

definition merge_options :: "options \<Rightarrow> config" where
  "merge_options options = \<lparr>
     cfg_url = (case opt_url options of None \<Rightarrow> cfg_url DEFAULT_OPTIONS | Some u \<Rightarrow> u),
     cfg_selectors =
       (case opt_selectors options of None \<Rightarrow> cfg_selectors DEFAULT_OPTIONS | Some m \<Rightarrow> m) \<rparr>"

text \<open>Decimal digits of a number, as a template literal prints it.\<close>

fun string_of_nat :: "nat \<Rightarrow> string" where
  "string_of_nat n =
     (if n < 10 then [char_of (48 + n)]
      else string_of_nat (n div 10) @ [char_of (48 + n mod 10)])"

declare string_of_nat.simps [simp del]

section \<open>The checks of testingRandomUser.js\<close>

text \<open>The guard of \<^verbatim>\<open>ensurePage\<close>: \<^verbatim>\<open>!current || current === 'about:blank'\<close>.\<close>

definition is_blank :: "string \<Rightarrow> bool" where
  "is_blank current \<longleftrightarrow> current = [] \<or> current = ''about:blank''"

definition ensurePage :: "('s, 'e) page_driver \<Rightarrow> string \<Rightarrow> 's \<Rightarrow> fault + 's" where
  "ensurePage page url s =
     (let current = page_url page s in
      if is_blank current then page_goto page url s else Inr s)"

fun userCards_loop ::
  "('s, 'e) page_driver \<Rightarrow> selectors \<Rightarrow> 's \<Rightarrow> nat \<Rightarrow> 'e list \<Rightarrow> fault + check_result option"
where
  "userCards_loop page sel s i [] = Inr None"
| "userCards_loop page sel s i (cardEl # rest) =
     await (el_query page cardEl (sel ''userName'') s) (\<lambda>name.
     await (el_query page cardEl (sel ''userEmail'') s) (\<lambda>email.
     await (el_query page cardEl (sel ''userNationality'') s) (\<lambda>natEl.
       if name = None \<or> email = None \<or> natEl = None
       then Inr (Some \<lparr> ok = False,
                         message = ''Card '' @ string_of_nat i @ '' mancano campi obbligatori'',
                         details = Some (Index i) \<rparr>)
       else userCards_loop page sel s (Suc i) rest)))"

definition checkUserCards ::
  "('s, 'e) page_driver \<Rightarrow> options \<Rightarrow> 's \<Rightarrow> fault + check_result \<times> 's"
where
  "checkUserCards page options s =
     (let opts = merge_options options in
      await (ensurePage page (cfg_url opts) s) (\<lambda>s1.
      let sel = cfg_selectors opts in
      await (page_query_all page (sel ''userCard'') s1) (\<lambda>cards.
        if cards = []
        then Inr (\<lparr> ok = False, message = ''Nessuna user card trovata'',
                    details = Some (Count 0) \<rparr>, s1)
        else
          await (userCards_loop page sel s1 0 cards) (\<lambda>early.
            case early of
              Some r \<Rightarrow> Inr (r, s1)
            | None \<Rightarrow> Inr (\<lparr> ok = True, message = ''User cards OK'',
                               details = Some (Count (length cards)) \<rparr>, s1)))))"

definition checkRefreshCenters ::
  "('s, 'e) page_driver \<Rightarrow> options \<Rightarrow> 's \<Rightarrow> fault + check_result \<times> 's"
where
  "checkRefreshCenters page options s =
     (let opts = merge_options options in
      await (ensurePage page (cfg_url opts) s) (\<lambda>s1.
      let sel = cfg_selectors opts in
      await (page_query page (sel ''refresh'') s1) (\<lambda>refresh.
      await (case refresh of None \<Rightarrow> Inr s1 | Some r \<Rightarrow> el_click page r s1) (\<lambda>s2.
      await (page_query page (sel ''userCard'') s2) (\<lambda>cardEl.
        case cardEl of
          None \<Rightarrow> Inr (\<lparr> ok = False, message = ''Nessuna card trovata dopo refresh'',
                          details = None \<rparr>, s2)
        | Some c \<Rightarrow>
            await (el_boundingBox page c s2) (\<lambda>box.
              let viewport = (case page_viewportSize page s2 of
                                None \<Rightarrow> \<lparr> vp_width = 1024, vp_height = 768 \<rparr>
                              | Some v \<Rightarrow> v)
              in case box of
                None \<Rightarrow> Inr (\<lparr> ok = False,
                                message = ''Impossibile leggere bounding box della card'',
                                details = None \<rparr>, s2)
              | Some b \<Rightarrow>
                  let cardCenterX = box_x b + box_width b / 2;
                      cardCenterY = box_y b + box_height b / 2;
                      deltaX = \<bar>cardCenterX - vp_width viewport / 2\<bar>;
                      deltaY = \<bar>cardCenterY - vp_height viewport / 2\<bar>;
                      okv = (deltaX < vp_width viewport * 0.25
                             \<and> deltaY < vp_height viewport * 0.25)
                  in Inr (\<lparr> ok = okv,
                             message = (if okv then ''Card centrata'' else ''Card non centrata''),
                             details = Some (Deltas deltaX deltaY viewport) \<rparr>, s2)))))))"

fun readableInfo_loop ::
  "('s, 'e) page_driver \<Rightarrow> 's \<Rightarrow> nat \<Rightarrow> 'e list \<Rightarrow> fault + check_result option"
where
  "readableInfo_loop page s i [] = Inr None"
| "readableInfo_loop page s i (cardEl # rest) =
     await (el_query page cardEl (Some ''h1, h2, h3, h4, h5, .title'') s) (\<lambda>title.
     let hasTitle = (title \<noteq> None) in
     await (el_query page cardEl (Some ''p, span, .desc, .info'') s) (\<lambda>txt.
     let hasText = (txt \<noteq> None) in
       if \<not> hasTitle \<or> \<not> hasText
       then Inr (Some \<lparr> ok = False,
                         message = ''Card '' @ string_of_nat i
                                   @ '' non ha titolo o testo descrittivo'',
                         details = Some (TitleText hasTitle hasText) \<rparr>)
       else readableInfo_loop page s (Suc i) rest))"

text \<open>The last letter of the first message is U+00E0, written as its two UTF-8 bytes.\<close>

definition checkReadableInfo ::
  "('s, 'e) page_driver \<Rightarrow> options \<Rightarrow> 's \<Rightarrow> fault + check_result \<times> 's"
where
  "checkReadableInfo page options s =
     (let opts = merge_options options in
      await (ensurePage page (cfg_url opts) s) (\<lambda>s1.
      let sel = cfg_selectors opts in
      await (page_query_all page (sel ''userCard'') s1) (\<lambda>cards.
        if cards = []
        then Inr (\<lparr> ok = False,
                    message = ''Nessuna card per verifica leggibilit'' @ [CHR 0xC3, CHR 0xA0],
                    details = None \<rparr>, s1)
        else
          await (readableInfo_loop page s1 0 cards) (\<lambda>early.
            case early of
              Some r \<Rightarrow> Inr (r, s1)
            | None \<Rightarrow> Inr (\<lparr> ok = True,
                               message = ''Informazioni di facile comprensione presenti'',
                               details = None \<rparr>, s1)))))"

definition NEXT_BUTTON :: string where
  \<open>NEXT_BUTTON =
     ''button[aria-label="avanti"], button[aria-label="next"], button:has-text("Avanti")''\<close>

definition PREV_BUTTON :: string where
  \<open>PREV_BUTTON =
     ''button[aria-label="indietro"], button[aria-label="prev"], button:has-text("Indietro")''\<close>

definition RANGE_SLIDER :: string where
  \<open>RANGE_SLIDER = ''input[type="range"]''\<close>

definition GENDER_RADIOS :: string where
  \<open>GENDER_RADIOS = ''[type="radio"][name="gender"]''\<close>

definition NATIONALITY_CHECKBOXES :: string where
  \<open>NATIONALITY_CHECKBOXES = ''[type="checkbox"][name="nationality"]''\<close>

definition checkAdvancedSearchControls ::
  "('s, 'e) page_driver \<Rightarrow> options \<Rightarrow> 's \<Rightarrow> fault + check_result \<times> 's"
where
  "checkAdvancedSearchControls page options s =
     (let opts = merge_options options in
      await (ensurePage page (cfg_url opts) s) (\<lambda>s1.
      await (page_query page (Some NEXT_BUTTON) s1) (\<lambda>next.
      await (page_query page (Some PREV_BUTTON) s1) (\<lambda>prev.
      await (page_query page (Some RANGE_SLIDER) s1) (\<lambda>slider.
      await (page_query_all page (Some GENDER_RADIOS) s1) (\<lambda>radios.
      await (page_query_all page (Some NATIONALITY_CHECKBOXES) s1) (\<lambda>checkboxes.
        let okv = ((next \<noteq> None \<or> prev \<noteq> None) \<and> slider \<noteq> None
                   \<and> length radios \<ge> 2 \<and> length checkboxes \<ge> 1)
        in Inr (\<lparr> ok = okv,
                   message = (if okv then ''Controlli ricerca presenti''
                              else ''Controlli ricerca mancanti o insufficienti''),
                   details = Some (SearchControls (next \<noteq> None) (prev \<noteq> None) (slider \<noteq> None)
                                     (length radios) (length checkboxes)) \<rparr>, s1))))))))"

text \<open>
  A JavaScript number as \<^verbatim>\<open>parseFloat\<close> returns it, and \<^verbatim>\<open>>=\<close> on two of them: a comparison
  with \<^verbatim>\<open>NaN\<close> is false. \<^verbatim>\<open>parseFloat\<close> itself is a built-in of the language and a
  parameter of the model.
\<close>

datatype jsnum = NaN | NegInfinity | Finite real | PosInfinity

fun js_ge :: "jsnum \<Rightarrow> jsnum \<Rightarrow> bool" where
  "js_ge NaN b = False"
| "js_ge a NaN = False"
| "js_ge PosInfinity b = True"
| "js_ge a NegInfinity = True"
| "js_ge NegInfinity b = False"
| "js_ge a PosInfinity = False"
| "js_ge (Finite a) (Finite b) = (a \<ge> b)"

definition checkNavbarPhotos ::
  "(string \<Rightarrow> jsnum) \<Rightarrow> ('s, 'e) page_driver \<Rightarrow> options \<Rightarrow> 's \<Rightarrow> fault + check_result \<times> 's"
where
  "checkNavbarPhotos parseFloat page options s =
     (let opts = merge_options options in
      await (ensurePage page (cfg_url opts) s) (\<lambda>s1.
      let sel = cfg_selectors opts in
      await (page_query page (sel ''navbarSecondItem'') s1) (\<lambda>nav.
        case nav of
          None \<Rightarrow> Inr (\<lparr> ok = False, message = ''Seconda voce navbar non trovata'',
                          details = None \<rparr>, s1)
        | Some n \<Rightarrow>
            await (el_click page n s1) (\<lambda>s2.
            await (page_query_all page (sel ''userPhotoImg'') s2) (\<lambda>imgs.
              case imgs of
                [] \<Rightarrow> Inr (\<lparr> ok = False, message = ''Nessuna foto utente trovata'',
                              details = None \<rparr>, s2)
              | first # others \<Rightarrow>
                  await (el_computedStyle page first ''opacity'' s2) (\<lambda>initialOpacity.
                  await (page_waitForTimeout page 500 s2) (\<lambda>s3.
                  await (el_computedStyle page first ''opacity'' s3) (\<lambda>laterOpacity.
                  await (el_computedStyle page first ''transition'' s3) (\<lambda>transition.
                    let okv = (js_ge (parseFloat laterOpacity) (parseFloat initialOpacity)
                               \<or> length transition > 0)
                    in Inr (\<lparr> ok = okv,
                               message = (if okv then ''Foto con effetto progressivo rilevato''
                                          else ''Effetto progressivo non evidente''),
                               details = Some (Opacity initialOpacity laterOpacity transition) \<rparr>,
                            s3))))))))))"

definition INTERNAL_ANCHORS :: string where
  \<open>INTERNAL_ANCHORS = ''a[href^="#"]''\<close>

fun anchors_loop ::
  "('s, 'e) page_driver \<Rightarrow> 's \<Rightarrow> 'e list \<Rightarrow> fault + check_result option"
where
  "anchors_loop page s [] = Inr None"
| "anchors_loop page s (anchor # rest) =
     await (el_getAttribute page anchor ''href'' s) (\<lambda>href.
       case href of
         Some (c # ident) \<Rightarrow>
           if c = CHR ''#''
           then await (page_query page (Some (''#'' @ ident)) s) (\<lambda>target.
                  if target = None
                  then Inr (Some \<lparr> ok = False,
                                    message = ''Anchor punta a id mancante: '' @ ident,
                                    details = None \<rparr>)
                  else anchors_loop page s rest)
           else anchors_loop page s rest
       | _ \<Rightarrow> anchors_loop page s rest)"

definition checkDocumentationAnchors ::
  "('s, 'e) page_driver \<Rightarrow> options \<Rightarrow> 's \<Rightarrow> fault + check_result \<times> 's"
where
  "checkDocumentationAnchors page options s =
     (let opts = merge_options options in
      await (ensurePage page (cfg_url opts) s) (\<lambda>s1.
      let sel = cfg_selectors opts in
      await (page_query page (sel ''documentation'') s1) (\<lambda>docs.
        case docs of
          None \<Rightarrow> Inr (\<lparr> ok = False, message = ''Sezione documentazione non trovata'',
                          details = None \<rparr>, s1)
        | Some dc \<Rightarrow>
            await (el_query_all page dc (Some INTERNAL_ANCHORS) s1) (\<lambda>anchors.
              if anchors = []
              then Inr (\<lparr> ok = False,
                          message = ''Nessun anchor interno nella documentazione'',
                          details = None \<rparr>, s1)
              else
                await (anchors_loop page s1 anchors) (\<lambda>early.
                  case early of
                    Some r \<Rightarrow> Inr (r, s1)
                  | None \<Rightarrow> Inr (\<lparr> ok = True,
                                     message = ''Anchors validi nella documentazione'',
                                     details = Some (Anchors (length anchors)) \<rparr>, s1))))))"

definition checkVersionsNav ::
  "('s, 'e) page_driver \<Rightarrow> options \<Rightarrow> 's \<Rightarrow> fault + check_result \<times> 's"
where
  "checkVersionsNav page options s =
     (let opts = merge_options options in
      await (ensurePage page (cfg_url opts) s) (\<lambda>s1.
      let sel = cfg_selectors opts in
      await (page_query page (sel ''versionsNav'') s1) (\<lambda>nav.
        Inr (\<lparr> ok = (nav \<noteq> None),
                message = (if nav \<noteq> None then ''Voce versioni presente''
                           else ''Voce versioni assente''),
                details = None \<rparr>, s1))))"

definition CHART_BARS :: string where
  \<open>CHART_BARS = ''[class*="bar"], [class*="day"], div[data-progress]''\<close>

definition checkAccessChart ::
  "('s, 'e) page_driver \<Rightarrow> options \<Rightarrow> 's \<Rightarrow> fault + check_result \<times> 's"
where
  "checkAccessChart page options s =
     (let opts = merge_options options in
      await (ensurePage page (cfg_url opts) s) (\<lambda>s1.
      let sel = cfg_selectors opts in
      await (page_query page (sel ''accessChart'') s1) (\<lambda>chart.
        case chart of
          None \<Rightarrow> Inr (\<lparr> ok = False, message = ''Grafico accessi non trovato'',
                          details = None \<rparr>, s1)
        | Some ch \<Rightarrow>
            await (el_query_all page ch (Some CHART_BARS) s1) (\<lambda>bars.
              Inr (\<lparr> ok = (length bars > 0),
                      message = (if length bars > 0 then ''Grafico con elementi progressivi''
                                 else ''Grafico privo di elementi progressivi''),
                      details = Some (Bars (length bars)) \<rparr>, s1)))))"

definition ROBOT_CHECKBOX :: string where
  \<open>ROBOT_CHECKBOX =
     ''input[type="checkbox"][aria-label*="robot"], label:has-text("non sono un robot")''\<close>

definition CAPTCHA_FRAME :: string where
  \<open>CAPTCHA_FRAME = ''iframe[src*="recaptcha"], iframe[src*="hcaptcha"]''\<close>

definition checkDonateAntiBot ::
  "('s, 'e) page_driver \<Rightarrow> options \<Rightarrow> 's \<Rightarrow> fault + check_result \<times> 's"
where
  "checkDonateAntiBot page options s =
     (let opts = merge_options options in
      await (ensurePage page (cfg_url opts) s) (\<lambda>s1.
      let sel = cfg_selectors opts in
      await (page_query page (sel ''donateSection'') s1) (\<lambda>donate.
        case donate of
          None \<Rightarrow> Inr (\<lparr> ok = False, message = ''Sezione donate non trovata'',
                          details = None \<rparr>, s1)
        | Some dn \<Rightarrow>
            await (el_query page dn (Some ROBOT_CHECKBOX) s1) (\<lambda>robotCheckbox.
            await (el_query page dn (Some CAPTCHA_FRAME) s1) (\<lambda>captchaFrame.
              let okv = (robotCheckbox \<noteq> None \<or> captchaFrame \<noteq> None)
              in Inr (\<lparr> ok = okv,
                         message = (if okv then ''Anti-bot presente'' else ''Anti-bot non trovato''),
                         details = Some (AntiBot (robotCheckbox \<noteq> None) (captchaFrame \<noteq> None)) \<rparr>,
                      s1))))))"

text \<open>
  \<^verbatim>\<open>runAll\<close> stores the nine results under their keys, in this order, and folds them with
  \<^verbatim>\<open>Object.values(results).every(r => r && r.ok)\<close>.
\<close>

definition runAll ::
  "(string \<Rightarrow> jsnum) \<Rightarrow> ('s, 'e) page_driver \<Rightarrow> options \<Rightarrow> 's \<Rightarrow> fault + report \<times> 's"
where
  "runAll parseFloat page options s =
     await (checkUserCards page options s) (\<lambda>(userCards, s1).
     await (checkRefreshCenters page options s1) (\<lambda>(refreshCenter, s2).
     await (checkReadableInfo page options s2) (\<lambda>(readableInfo, s3).
     await (checkAdvancedSearchControls page options s3) (\<lambda>(advancedSearch, s4).
     await (checkNavbarPhotos parseFloat page options s4) (\<lambda>(navbarPhotos, s5).
     await (checkDocumentationAnchors page options s5) (\<lambda>(documentation, s6).
     await (checkVersionsNav page options s6) (\<lambda>(versionsNav, s7).
     await (checkAccessChart page options s7) (\<lambda>(accessChart, s8).
     await (checkDonateAntiBot page options s8) (\<lambda>(donate, s9).
       let results = [(''userCards'', userCards), (''refreshCenter'', refreshCenter),
                      (''readableInfo'', readableInfo), (''advancedSearch'', advancedSearch),
                      (''navbarPhotos'', navbarPhotos), (''documentation'', documentation),
                      (''versionsNav'', versionsNav), (''accessChart'', accessChart),
                      (''donate'', donate)];
           overall = list_all (\<lambda>r. ok r) (map snd results)
       in Inr (\<lparr> overall_ok = overall, report_details = results \<rparr>, s9))))))))))"

section \<open>The selector fallback of taiko-login.js\<close>

fun firstSelectorExists ::
  "('s, 'e) page_driver \<Rightarrow> string list \<Rightarrow> 's \<Rightarrow> fault + string option"
where
  "firstSelectorExists page [] st = Inr None"
| "firstSelectorExists page (s # selectors) st =
     await (page_query page (Some s) st) (\<lambda>el.
       if el \<noteq> None then Inr (Some s) else firstSelectorExists page selectors st)"

section \<open>The nine exported checks\<close>

text \<open>The checks that \<^verbatim>\<open>module.exports\<close> lists, in the order in which \<^verbatim>\<open>runAll\<close> calls them.\<close>

definition checks ::
  "(string \<Rightarrow> jsnum) \<Rightarrow>
   (('s, 'e) page_driver \<Rightarrow> options \<Rightarrow> 's \<Rightarrow> fault + check_result \<times> 's) list"
where
  "checks parseFloat =
     [checkUserCards, checkRefreshCenters, checkReadableInfo, checkAdvancedSearchControls,
      checkNavbarPhotos parseFloat, checkDocumentationAnchors, checkVersionsNav,
      checkAccessChart, checkDonateAntiBot]"

section \<open>Faults of a driver\<close>



text \<open>\<open>same_or_fault f x y\<close>: the outcome \<open>y\<close> is the outcome \<open>x\<close>, or the fault \<open>f\<close>.\<close>

definition same_or_fault :: "fault \<Rightarrow> fault + 'a \<Rightarrow> fault + 'a \<Rightarrow> bool" where
  "same_or_fault f x y \<longleftrightarrow> y = x \<or> y = Inl f"


section \<open>A concrete driver: a static page\<close>

text \<open>
  One instance of the driver, for running the checks on concrete pages. An element lists,
  per selector, the descendants that match it; a page does the same for the whole
  document. Navigation sets the location, clicks and waits change nothing, a selector
  that is \<^verbatim>\<open>undefined\<close> is refused as Playwright refuses it, and every operation on a
  closed page fails.
\<close>

datatype elem =
  Elem (children: "(string \<times> elem list) list")
       (boxOf: "bounding_box option")
       (attrs: "(string \<times> string) list")
       (styles: "(string \<times> string) list")

record static_page =
  sp_url :: string
  sp_viewport :: "viewport option"
  sp_dom :: "(string \<times> elem list) list"
  sp_closed :: bool

definition closed_fault :: fault where
  "closed_fault = Fault ''Target page, context or browser has been closed''"

definition matching ::
  "(string \<times> elem list) list \<Rightarrow> selector_arg \<Rightarrow> static_page \<Rightarrow> fault + elem list"
where
  "matching table q p =
     (if sp_closed p then Inl closed_fault
      else case q of
        None \<Rightarrow> Inl (Fault ''selector: expected string, got undefined'')
      | Some sel \<Rightarrow> Inr (case map_of table sel of None \<Rightarrow> [] | Some es \<Rightarrow> es))"

definition first_match :: "elem list \<Rightarrow> fault + elem option" where
  "first_match es = Inr (case es of [] \<Rightarrow> None | e # rest \<Rightarrow> Some e)"

definition if_open :: "static_page \<Rightarrow> 'a \<Rightarrow> fault + 'a" where
  "if_open p v = (if sp_closed p then Inl closed_fault else Inr v)"

definition static_driver :: "(static_page, elem) page_driver" where
  "static_driver = \<lparr>
     page_url = sp_url,
     page_goto = (\<lambda>url p. if_open p (p\<lparr> sp_url := url \<rparr>)),
     page_query = (\<lambda>q p. await (matching (sp_dom p) q p) first_match),
     page_query_all = (\<lambda>q p. matching (sp_dom p) q p),
     page_viewportSize = sp_viewport,
     page_waitForTimeout = (\<lambda>ms p. if_open p p),
     el_query = (\<lambda>e q p. await (matching (children e) q p) first_match),
     el_query_all = (\<lambda>e q p. matching (children e) q p),
     el_click = (\<lambda>e p. if_open p p),
     el_boundingBox = (\<lambda>e p. if_open p (boxOf e)),
     el_getAttribute = (\<lambda>e a p. if_open p (map_of (attrs e) a)),
     el_computedStyle = (\<lambda>e pr p.
        if_open p (case map_of (styles e) pr of None \<Rightarrow> [] | Some v \<Rightarrow> v)) \<rparr>"

text \<open>A \<^verbatim>\<open>parseFloat\<close> for the two opacities the concrete pages use.\<close>

definition parseFloat01 :: "string \<Rightarrow> jsnum" where
  "parseFloat01 str =
     (if str = ''0'' then Finite 0 else if str = ''1'' then Finite 1 else NaN)"

definition no_options :: options where
  "no_options = \<lparr> opt_url = None, opt_selectors = None \<rparr>"

definition leaf :: elem where
  "leaf = Elem [] None [] []"

text \<open>
  The page of the specification's end-to-end scenario: three well-formed cards (the first
  one centred in a 1024 by 768 viewport), a refresh button, a next button, a range slider,
  two gender radios, one nationality checkbox, a second navbar item and a photo with a
  transition, a documentation section with one valid anchor, a versions entry, an access
  chart with two bars and a donate section with a CAPTCHA frame.
\<close>

definition user_card :: elem where
  "user_card = Elem
     [(''.user-name'', [leaf]), (''.user-email'', [leaf]), (''.user-nationality'', [leaf]),
      (''h1, h2, h3, h4, h5, .title'', [leaf]), (''p, span, .desc, .info'', [leaf])]
     (Some \<lparr> box_x = 412, box_y = 284, box_width = 200, box_height = 200 \<rparr>) [] []"

definition photo :: elem where
  "photo = Elem [] None [] [(''opacity'', ''1''), (''transition'', ''opacity 0.5s ease 0s'')]"

definition docs_section :: elem where
  "docs_section = Elem [(INTERNAL_ANCHORS, [Elem [] None [(''href'', ''#intro'')] []])] None [] []"

definition chart :: elem where
  "chart = Elem [(CHART_BARS, [leaf, leaf])] None [] []"

definition donate_section :: elem where
  "donate_section = Elem [(CAPTCHA_FRAME, [leaf])] None [] []"

definition demo_page :: static_page where
  "demo_page = \<lparr>
     sp_url = ''http://localhost:3000'',
     sp_viewport = Some \<lparr> vp_width = 1024, vp_height = 768 \<rparr>,
     sp_dom =
       [(''.user-card'', [user_card, user_card, user_card]),
        (''#refresh'', [leaf]),
        (NEXT_BUTTON, [leaf]),
        (RANGE_SLIDER, [leaf]),
        (GENDER_RADIOS, [leaf, leaf]),
        (NATIONALITY_CHECKBOXES, [leaf]),
        (''nav >> nth=1'', [leaf]),
        (''.user-photo img'', [photo]),
        (''#documentation, .documentation'', [docs_section]),
        (''#intro'', [leaf]),
        (''nav >> text=Versioni, nav >> text=RandomUser Versions, nav >> text=versioni'',
         [leaf]),
        (''.access-chart, #access-chart'', [chart]),
        (''#donate, .donate'', [donate_section])],
     sp_closed = False \<rparr>"

text \<open>A loaded page with an empty document, and a page that has not been navigated yet.\<close>

definition empty_page :: static_page where
  "empty_page = \<lparr> sp_url = ''http://localhost:3000'', sp_viewport = None, sp_dom = [],
                  sp_closed = False \<rparr>"

definition blank_page :: static_page where
  "blank_page = \<lparr> sp_url = ''about:blank'', sp_viewport = None, sp_dom = [],
                  sp_closed = False \<rparr>"

text \<open>
  Variants of the scenario page: the first card far to the right and no refresh button, no
  viewport size, a documentation section whose second anchor points to a missing id, and
  a documentation section without anchors.
\<close>

definition offcenter_card :: elem where
  "offcenter_card = Elem []
     (Some \<lparr> box_x = 900, box_y = 284, box_width = 200, box_height = 200 \<rparr>) [] []"

definition offcenter_page :: static_page where
  "offcenter_page = demo_page\<lparr> sp_dom := [(''.user-card'', [offcenter_card])] \<rparr>"

definition no_viewport_page :: static_page where
  "no_viewport_page = demo_page\<lparr> sp_viewport := None \<rparr>"

definition anchor_to :: "string \<Rightarrow> elem" where
  "anchor_to ident = Elem [] None [(''href'', CHR ''#'' # ident)] []"

definition broken_docs :: elem where
  "broken_docs = Elem [(INTERNAL_ANCHORS, [anchor_to ''intro'', anchor_to ''missing''])] None [] []"

definition broken_docs_page :: static_page where
  "broken_docs_page = demo_page\<lparr> sp_dom :=
     [(''#documentation, .documentation'', [broken_docs]), (''#intro'', [leaf])] \<rparr>"

definition no_anchor_docs_page :: static_page where
  "no_anchor_docs_page = demo_page\<lparr> sp_dom := [(''#documentation, .documentation'', [leaf])] \<rparr>"





text \<open>
  A driver that refuses the selector \<^verbatim>\<open>#\<close>, as Playwright refuses a selector that is not
  valid CSS, and a documentation section whose only internal anchor is
  \<^verbatim>\<open><a href="#">\<close>.
\<close>

definition invalid_selector_fault :: fault where
  "invalid_selector_fault = Fault ''invalid CSS selector: #''"

definition css_checking_driver :: "(static_page, elem) page_driver" where
  "css_checking_driver = static_driver\<lparr> page_query :=
     (\<lambda>q p. if q = Some ''#'' then Inl invalid_selector_fault
             else page_query static_driver q p) \<rparr>"

definition hash_docs :: elem where
  "hash_docs = Elem [(INTERNAL_ANCHORS, [anchor_to []])] None [] []"

definition hash_anchor_page :: static_page where
  "hash_anchor_page = demo_page\<lparr> sp_dom := [(''#documentation, .documentation'', [hash_docs])] \<rparr>"

text \<open>A login form whose user field answers to the second and third selector tried.\<close>

definition USERNAME_SELECTORS :: "string list" where
  \<open>USERNAME_SELECTORS = [''input[name="username"]'', ''input#username'', ''input[type="text"]'']\<close>

definition login_page :: static_page where
  \<open>login_page = \<lparr>
     sp_url = ''https://taiko.mantishub.io/login_page.php'',
     sp_viewport = None,
     sp_dom = [(''input#username'', [leaf]), (''input[type="text"]'', [leaf]),
               (''input[type="password"]'', [leaf])],
     sp_closed = False \<rparr>\<close>

text \<open>
  Two replacements for the driver's navigation: one that refuses every navigation, and one
  that navigates a blank page and refuses to navigate a loaded one.
\<close>

definition refusing_goto :: "string \<Rightarrow> static_page \<Rightarrow> fault + static_page" where
  "refusing_goto url p = Inl (Fault ''unexpected navigation'')"

definition goto_if_blank :: "string \<Rightarrow> static_page \<Rightarrow> fault + static_page" where
  "goto_if_blank url p =
     (if is_blank (sp_url p) then page_goto static_driver url p else refusing_goto url p)"


section \<open>Basic facts\<close>

lemma await_Inl [simp]: "await (Inl f) k = Inl f"
  by (simp add: await_def)

lemma await_Inr [simp]: "await (Inr a) k = k a"
  by (simp add: await_def)

lemma static_driver_simps [simp]:
  "page_url static_driver = sp_url"
  "page_goto static_driver url p = if_open p (p\<lparr> sp_url := url \<rparr>)"
  "page_query static_driver q p = await (matching (sp_dom p) q p) first_match"
  "page_query_all static_driver q p = matching (sp_dom p) q p"
  "page_viewportSize static_driver = sp_viewport"
  "page_waitForTimeout static_driver ms p = if_open p p"
  "el_query static_driver e q p = await (matching (children e) q p) first_match"
  "el_query_all static_driver e q p = matching (children e) q p"
  "el_click static_driver e p = if_open p p"
  "el_boundingBox static_driver e p = if_open p (boxOf e)"
  "el_getAttribute static_driver e a p = if_open p (map_of (attrs e) a)"
  "el_computedStyle static_driver e pr p =
     if_open p (case map_of (styles e) pr of None \<Rightarrow> [] | Some v \<Rightarrow> v)"
  by (simp_all add: static_driver_def)

lemmas selector_defs =
  NEXT_BUTTON_def PREV_BUTTON_def RANGE_SLIDER_def GENDER_RADIOS_def
  NATIONALITY_CHECKBOXES_def INTERNAL_ANCHORS_def CHART_BARS_def ROBOT_CHECKBOX_def
  CAPTCHA_FRAME_def

lemmas page_defs =
  demo_page_def user_card_def photo_def docs_section_def chart_def donate_section_def
  leaf_def empty_page_def blank_page_def

lemmas run_defs =
  matching_def first_match_def if_open_def merge_options_def DEFAULT_OPTIONS_def
  no_options_def ensurePage_def is_blank_def Let_def

lemmas check_defs =
  checkUserCards_def checkRefreshCenters_def checkReadableInfo_def
  checkAdvancedSearchControls_def checkNavbarPhotos_def checkDocumentationAnchors_def
  checkVersionsNav_def checkAccessChart_def checkDonateAntiBot_def

text \<open>The nine checks pass on the scenario page; the card check fails on the empty one.\<close>

lemma demo_results:
  "\<exists>r. checkUserCards static_driver no_options demo_page = Inr (r, demo_page) \<and> ok r"
  "\<exists>r. checkRefreshCenters static_driver no_options demo_page = Inr (r, demo_page) \<and> ok r"
  "\<exists>r. checkReadableInfo static_driver no_options demo_page = Inr (r, demo_page) \<and> ok r"
  "\<exists>r. checkAdvancedSearchControls static_driver no_options demo_page = Inr (r, demo_page)
       \<and> ok r"
  "\<exists>r. checkNavbarPhotos parseFloat01 static_driver no_options demo_page = Inr (r, demo_page)
       \<and> ok r"
  "\<exists>r. checkDocumentationAnchors static_driver no_options demo_page = Inr (r, demo_page)
       \<and> ok r"
  "\<exists>r. checkVersionsNav static_driver no_options demo_page = Inr (r, demo_page) \<and> ok r"
  "\<exists>r. checkAccessChart static_driver no_options demo_page = Inr (r, demo_page) \<and> ok r"
  "\<exists>r. checkDonateAntiBot static_driver no_options demo_page = Inr (r, demo_page) \<and> ok r"
  by (simp_all add: check_defs page_defs run_defs selector_defs parseFloat01_def)

lemma demo_run:
  "\<exists>rep. runAll parseFloat01 static_driver no_options demo_page = Inr (rep, demo_page)"
  using demo_results unfolding runAll_def
  by (auto simp: Let_def)

lemma empty_userCards:
  "\<exists>r. checkUserCards static_driver no_options empty_page = Inr (r, empty_page) \<and> \<not> ok r"
  by (simp add: check_defs page_defs run_defs)

lemma empty_run:
  "\<exists>rep. runAll parseFloat01 static_driver no_options empty_page = Inr (rep, empty_page)"
  unfolding runAll_def
  by (simp add: check_defs page_defs run_defs selector_defs parseFloat01_def)

section \<open>The selector fallback returns the first match\<close>

lemma firstSelectorExists_None_iff:
  "firstSelectorExists page sels st = Inr None
   \<longleftrightarrow> (\<forall>y\<in>set sels. page_query page (Some y) st = Inr None)"
  by (induction sels) (auto simp: await_def split: sum.splits)

lemma firstSelectorExists_find:
  "\<forall>y\<in>set sels. \<exists>r. page_query page (Some y) st = Inr r \<Longrightarrow>
   firstSelectorExists page sels st =
     Inr (find (\<lambda>y. page_query page (Some y) st \<noteq> Inr None) sels)"
  by (induction sels) auto

lemma firstSelectorExists_Some_iff:
  "firstSelectorExists page sels st = Inr (Some x)
   \<longleftrightarrow> (\<exists>pre post. sels = pre @ x # post
         \<and> (\<forall>y\<in>set pre. page_query page (Some y) st = Inr None)
         \<and> (\<exists>e. page_query page (Some x) st = Inr (Some e)))"
  (is "?L sels = ?R sels")
proof (induction sels)
  case Nil
  then show ?case by simp
next
  case (Cons a sels)
  show ?case
  proof (cases "page_query page (Some a) st")
    case (Inl f)
    have "\<not> ?R (a # sels)"
    proof
      assume "?R (a # sels)"
      then obtain pre post e where *: "a # sels = pre @ x # post"
        "\<forall>y\<in>set pre. page_query page (Some y) st = Inr None"
        "page_query page (Some x) st = Inr (Some e)" by blast
      show False
      proof (cases pre)
        case Nil
        with * Inl show False by simp
      next
        case (Cons b pre')
        with * Inl show False by simp
      qed
    qed
    with Inl show ?thesis by simp
  next
    case (Inr r)
    show ?thesis
    proof (cases r)
      case None
      have "?R (a # sels) = ?R sels"
      proof
        assume "?R (a # sels)"
        then obtain pre post e where *: "a # sels = pre @ x # post"
          "\<forall>y\<in>set pre. page_query page (Some y) st = Inr None"
          "page_query page (Some x) st = Inr (Some e)" by blast
        show "?R sels"
        proof (cases pre)
          case Nil
          with * Inr None show ?thesis by simp
        next
          case (Cons b pre')
          with * have "sels = pre' @ x # post"
            "\<forall>y\<in>set pre'. page_query page (Some y) st = Inr None"
            by simp_all
          with *(3) show ?thesis by blast
        qed
      next
        assume "?R sels"
        then obtain pre post e where *: "sels = pre @ x # post"
          "\<forall>y\<in>set pre. page_query page (Some y) st = Inr None"
          "page_query page (Some x) st = Inr (Some e)" by blast
        from * Inr None have "a # sels = (a # pre) @ x # post"
          "\<forall>y\<in>set (a # pre). page_query page (Some y) st = Inr None" by simp_all
        with *(3) show "?R (a # sels)" by blast
      qed
      with Inr None Cons show ?thesis by simp
    next
      case (Some e)
      show ?thesis
      proof (cases "a = x")
        case True
        have "a # sels = [] @ x # sels" using True by simp
        with Inr Some True have "?R (a # sels)" by fastforce
        with Inr Some True show ?thesis by simp
      next
        case False
        have "\<not> ?R (a # sels)"
        proof
          assume "?R (a # sels)"
          then obtain pre post e' where *: "a # sels = pre @ x # post"
            "\<forall>y\<in>set pre. page_query page (Some y) st = Inr None"
            "page_query page (Some x) st = Inr (Some e')" by blast
          show False
          proof (cases pre)
            case Nil
            with * False show False by simp
          next
            case (Cons b pre')
            with * Inr Some show False by simp
          qed
        qed
        with Inr Some False show ?thesis by simp
      qed
    qed
  qed
qed

text \<open>
  Claim C9. \<^verbatim>\<open>firstSelectorExists\<close> returns a selector \<open>x\<close> exactly when \<open>x\<close> stands in the
  list after selectors that all match nothing and \<open>x\<close> itself matches an element; it
  returns \<^verbatim>\<open>null\<close> exactly when no selector of the list matches; and when no query of the
  driver fails it is the first selector of the list, in list order, that matches. It
  returns no page state: it only reads the page.
\<close>

theorem firstSelectorExists_first_match:
  "(firstSelectorExists page sels st = Inr (Some x)
     \<longleftrightarrow> (\<exists>pre post. sels = pre @ x # post
           \<and> (\<forall>y\<in>set pre. page_query page (Some y) st = Inr None)
           \<and> (\<exists>e. page_query page (Some x) st = Inr (Some e))))
   \<and> (firstSelectorExists page sels st = Inr None
     \<longleftrightarrow> (\<forall>y\<in>set sels. page_query page (Some y) st = Inr None))
   \<and> ((\<forall>y\<in>set sels. \<exists>r. page_query page (Some y) st = Inr r) \<longrightarrow>
        firstSelectorExists page sels st =
          Inr (find (\<lambda>y. page_query page (Some y) st \<noteq> Inr None) sels))"
  using firstSelectorExists_Some_iff [of page sels st x]
    firstSelectorExists_None_iff [of page sels st]
    firstSelectorExists_find [of sels page st]
  by blast

theorem firstSelectorExists_first_match_witness:
  \<open>firstSelectorExists static_driver USERNAME_SELECTORS login_page = Inr (Some ''input#username'')
   \<and> firstSelectorExists static_driver [''button[type="submit"]''] login_page = Inr None\<close>
proof -
  have a: "\<forall>y\<in>set USERNAME_SELECTORS. \<exists>r. page_query static_driver (Some y) login_page = Inr r"
    by (simp add: page_defs login_page_def USERNAME_SELECTORS_def run_defs)
  have b: \<open>\<forall>y\<in>set [''button[type="submit"]'']. page_query static_driver (Some y) login_page = Inr None\<close>
    by (simp add: page_defs login_page_def USERNAME_SELECTORS_def run_defs)
  from a firstSelectorExists_first_match [of static_driver USERNAME_SELECTORS login_page]
  have "firstSelectorExists static_driver USERNAME_SELECTORS login_page =
          Inr (find (\<lambda>y. page_query static_driver (Some y) login_page \<noteq> Inr None)
                 USERNAME_SELECTORS)"
    by blast
  moreover from b firstSelectorExists_first_match
      [of static_driver \<open>[''button[type="submit"]'']\<close> login_page]
  have \<open>firstSelectorExists static_driver [''button[type="submit"]''] login_page = Inr None\<close>
    by blast
  ultimately show ?thesis
    by (simp add: page_defs login_page_def USERNAME_SELECTORS_def run_defs)
qed

section \<open>The advanced-search check\<close>

text \<open>
  Claim C8. When the entry guard and the five queries of the check succeed, the
  advanced-search check returns \<open>ok\<close> true if and only if (a next button is present or a
  prev button is present) and a range slider is present and at least two gender radios
  and at least one nationality checkbox are present.
\<close>

theorem checkAdvancedSearchControls_ok_iff:
  assumes "ensurePage page (cfg_url (merge_options options)) s = Inr s1"
    and "page_query page (Some NEXT_BUTTON) s1 = Inr next"
    and "page_query page (Some PREV_BUTTON) s1 = Inr prev"
    and "page_query page (Some RANGE_SLIDER) s1 = Inr slider"
    and "page_query_all page (Some GENDER_RADIOS) s1 = Inr radios"
    and "page_query_all page (Some NATIONALITY_CHECKBOXES) s1 = Inr checkboxes"
  shows "\<exists>r. checkAdvancedSearchControls page options s = Inr (r, s1)
          \<and> (ok r \<longleftrightarrow> (next \<noteq> None \<or> prev \<noteq> None) \<and> slider \<noteq> None
                      \<and> 2 \<le> length radios \<and> 1 \<le> length checkboxes)"
  using assms by (simp add: checkAdvancedSearchControls_def Let_def)

theorem checkAdvancedSearchControls_ok_iff_witness:
  "(\<exists>r. checkAdvancedSearchControls static_driver no_options demo_page = Inr (r, demo_page)
        \<and> ok r)
   \<and> (\<exists>r. checkAdvancedSearchControls static_driver no_options empty_page = Inr (r, empty_page)
        \<and> \<not> ok r)"
proof -
  have "\<exists>r. checkAdvancedSearchControls static_driver no_options demo_page = Inr (r, demo_page)
          \<and> (ok r \<longleftrightarrow> (Some leaf \<noteq> None \<or> (None :: elem option) \<noteq> None) \<and> Some leaf \<noteq> None
                      \<and> 2 \<le> length [leaf, leaf] \<and> 1 \<le> length [leaf])"
    by (rule checkAdvancedSearchControls_ok_iff) (simp_all add: page_defs run_defs selector_defs)
  moreover
  have "\<exists>r. checkAdvancedSearchControls static_driver no_options empty_page = Inr (r, empty_page)
          \<and> (ok r \<longleftrightarrow> ((None :: elem option) \<noteq> None \<or> (None :: elem option) \<noteq> None)
                      \<and> (None :: elem option) \<noteq> None
                      \<and> 2 \<le> length ([] :: elem list) \<and> 1 \<le> length ([] :: elem list))"
    by (rule checkAdvancedSearchControls_ok_iff) (simp_all add: page_defs run_defs selector_defs)
  ultimately show ?thesis by simp
qed

section \<open>The report of runAll\<close>

text \<open>
  Claim C1. Every report that \<^verbatim>\<open>runAll\<close> returns stores the results of the nine checks,
  each run on the page state the previous one left, under the nine keys; its
  \<open>overall.ok\<close> is the conjunction of the nine \<open>ok\<close> flags, so it is true if and only if
  every result stored in \<open>details\<close> has \<open>ok\<close> true.
\<close>

theorem runAll_overall_is_conjunction:
  assumes "runAll parseFloat page options s = Inr (rep, s')"
  shows "\<exists>r1 s1 r2 s2 r3 s3 r4 s4 r5 s5 r6 s6 r7 s7 r8 s8 r9.
           checkUserCards page options s = Inr (r1, s1)
         \<and> checkRefreshCenters page options s1 = Inr (r2, s2)
         \<and> checkReadableInfo page options s2 = Inr (r3, s3)
         \<and> checkAdvancedSearchControls page options s3 = Inr (r4, s4)
         \<and> checkNavbarPhotos parseFloat page options s4 = Inr (r5, s5)
         \<and> checkDocumentationAnchors page options s5 = Inr (r6, s6)
         \<and> checkVersionsNav page options s6 = Inr (r7, s7)
         \<and> checkAccessChart page options s7 = Inr (r8, s8)
         \<and> checkDonateAntiBot page options s8 = Inr (r9, s')
         \<and> report_details rep =
              [(''userCards'', r1), (''refreshCenter'', r2), (''readableInfo'', r3),
               (''advancedSearch'', r4), (''navbarPhotos'', r5), (''documentation'', r6),
               (''versionsNav'', r7), (''accessChart'', r8), (''donate'', r9)]
         \<and> (overall_ok rep \<longleftrightarrow>
               ok r1 \<and> ok r2 \<and> ok r3 \<and> ok r4 \<and> ok r5 \<and> ok r6 \<and> ok r7 \<and> ok r8 \<and> ok r9)
         \<and> (overall_ok rep \<longleftrightarrow> (\<forall>r \<in> snd ` set (report_details rep). ok r))"
  using assms unfolding runAll_def
  by (auto simp: await_def Let_def split: sum.splits prod.splits)

theorem runAll_overall_is_conjunction_witness:
  "(\<exists>rep. runAll parseFloat01 static_driver no_options demo_page = Inr (rep, demo_page)
        \<and> overall_ok rep \<and> list_all ok (map snd (report_details rep)))
   \<and> (\<exists>rep. runAll parseFloat01 static_driver no_options empty_page = Inr (rep, empty_page)
        \<and> \<not> overall_ok rep \<and> \<not> list_all ok (map snd (report_details rep)))"
proof -
  obtain rep where
    run: "runAll parseFloat01 static_driver no_options demo_page = Inr (rep, demo_page)"
    using demo_run by blast
  from runAll_overall_is_conjunction [OF run] demo_results
  have "overall_ok rep \<and> list_all ok (map snd (report_details rep))"
    by (auto simp: list_all_iff)
  with run have passes:
    "\<exists>rep. runAll parseFloat01 static_driver no_options demo_page = Inr (rep, demo_page)
        \<and> overall_ok rep \<and> list_all ok (map snd (report_details rep))"
    by blast
  obtain rep' where
    run': "runAll parseFloat01 static_driver no_options empty_page = Inr (rep', empty_page)"
    using empty_run by blast
  from runAll_overall_is_conjunction [OF run'] empty_userCards
  have "\<not> overall_ok rep' \<and> \<not> list_all ok (map snd (report_details rep'))"
    by (auto simp: list_all_iff)
  with run' have
    "\<exists>rep. runAll parseFloat01 static_driver no_options empty_page = Inr (rep, empty_page)
        \<and> \<not> overall_ok rep \<and> \<not> list_all ok (map snd (report_details rep))"
    by blast
  with passes show ?thesis by blast
qed

section \<open>The entry guard\<close>

lemma userCards_loop_goto [simp]:
  "userCards_loop (page\<lparr>page_goto := g\<rparr>) sel s i cards = userCards_loop page sel s i cards"
  by (induction cards arbitrary: i) (auto simp: await_def split: sum.splits)

lemma readableInfo_loop_goto [simp]:
  "readableInfo_loop (page\<lparr>page_goto := g\<rparr>) s i cards = readableInfo_loop page s i cards"
  by (induction cards arbitrary: i) (auto simp: await_def Let_def split: sum.splits)

lemma anchors_loop_goto [simp]:
  "anchors_loop (page\<lparr>page_goto := g\<rparr>) s anchors = anchors_loop page s anchors"
  by (induction anchors) (auto simp: await_def split: sum.splits option.splits list.splits)

lemma check_goto:
  assumes "c \<in> set (checks parseFloat)"
    and "is_blank (page_url page s) \<Longrightarrow>
           g (cfg_url (merge_options options)) s = page_goto page (cfg_url (merge_options options)) s"
  shows "c (page\<lparr>page_goto := g\<rparr>) options s = c page options s"
proof -
  have e: "ensurePage (page\<lparr>page_goto := g\<rparr>) (cfg_url (merge_options options)) s
        = ensurePage page (cfg_url (merge_options options)) s"
    using assms(2) by (simp add: ensurePage_def)
  have "checkUserCards (page\<lparr>page_goto := g\<rparr>) options s = checkUserCards page options s"
    by (simp add: checkUserCards_def e Let_def cong del: if_weak_cong option.case_cong_weak list.case_cong_weak)
  moreover have "checkRefreshCenters (page\<lparr>page_goto := g\<rparr>) options s = checkRefreshCenters page options s"
    by (simp add: checkRefreshCenters_def e Let_def cong del: if_weak_cong option.case_cong_weak list.case_cong_weak)
  moreover have "checkReadableInfo (page\<lparr>page_goto := g\<rparr>) options s = checkReadableInfo page options s"
    by (simp add: checkReadableInfo_def e Let_def cong del: if_weak_cong option.case_cong_weak list.case_cong_weak)
  moreover have "checkAdvancedSearchControls (page\<lparr>page_goto := g\<rparr>) options s = checkAdvancedSearchControls page options s"
    by (simp add: checkAdvancedSearchControls_def e Let_def cong del: if_weak_cong option.case_cong_weak list.case_cong_weak)
  moreover have "checkNavbarPhotos parseFloat (page\<lparr>page_goto := g\<rparr>) options s = checkNavbarPhotos parseFloat page options s"
    by (simp add: checkNavbarPhotos_def e Let_def cong del: if_weak_cong option.case_cong_weak list.case_cong_weak)
  moreover have "checkDocumentationAnchors (page\<lparr>page_goto := g\<rparr>) options s = checkDocumentationAnchors page options s"
    by (simp add: checkDocumentationAnchors_def e Let_def cong del: if_weak_cong option.case_cong_weak list.case_cong_weak)
  moreover have "checkVersionsNav (page\<lparr>page_goto := g\<rparr>) options s = checkVersionsNav page options s"
    by (simp add: checkVersionsNav_def e Let_def cong del: if_weak_cong option.case_cong_weak list.case_cong_weak)
  moreover have "checkAccessChart (page\<lparr>page_goto := g\<rparr>) options s = checkAccessChart page options s"
    by (simp add: checkAccessChart_def e Let_def cong del: if_weak_cong option.case_cong_weak list.case_cong_weak)
  moreover have "checkDonateAntiBot (page\<lparr>page_goto := g\<rparr>) options s = checkDonateAntiBot page options s"
    by (simp add: checkDonateAntiBot_def e Let_def cong del: if_weak_cong option.case_cong_weak list.case_cong_weak)
  ultimately show ?thesis using assms(1) by (auto simp: checks_def)
qed
lemma runAll_goto:
  assumes "\<And>st. is_blank (page_url page st) \<Longrightarrow>
           g (cfg_url (merge_options options)) st = page_goto page (cfg_url (merge_options options)) st"
  shows "runAll parseFloat (page\<lparr>page_goto := g\<rparr>) options s = runAll parseFloat page options s"
proof -
  have "\<And>c st. c \<in> set (checks parseFloat) \<Longrightarrow> c (page\<lparr>page_goto := g\<rparr>) options st = c page options st"
    by (rule check_goto) (simp_all add: assms)
  then have "\<And>st. checkUserCards (page\<lparr>page_goto := g\<rparr>) options st = checkUserCards page options st"
    "\<And>st. checkRefreshCenters (page\<lparr>page_goto := g\<rparr>) options st = checkRefreshCenters page options st"
    "\<And>st. checkReadableInfo (page\<lparr>page_goto := g\<rparr>) options st = checkReadableInfo page options st"
    "\<And>st. checkAdvancedSearchControls (page\<lparr>page_goto := g\<rparr>) options st = checkAdvancedSearchControls page options st"
    "\<And>st. checkNavbarPhotos parseFloat (page\<lparr>page_goto := g\<rparr>) options st = checkNavbarPhotos parseFloat page options st"
    "\<And>st. checkDocumentationAnchors (page\<lparr>page_goto := g\<rparr>) options st = checkDocumentationAnchors page options st"
    "\<And>st. checkVersionsNav (page\<lparr>page_goto := g\<rparr>) options st = checkVersionsNav page options st"
    "\<And>st. checkAccessChart (page\<lparr>page_goto := g\<rparr>) options st = checkAccessChart page options st"
    "\<And>st. checkDonateAntiBot (page\<lparr>page_goto := g\<rparr>) options st = checkDonateAntiBot page options st"
    by (simp_all add: checks_def)
  then show ?thesis
    unfolding runAll_def by simp
qed

lemma check_goto_fault:
  assumes "c \<in> set (checks parseFloat)"
    and "is_blank (page_url page s)"
    and "page_goto page (cfg_url (merge_options options)) s = Inl f"
  shows "c page options s = Inl f"
  using assms by (auto simp: checks_def check_defs ensurePage_def)

text \<open>
  Claim C3. The entry guard leaves a page whose location is set as it is, and navigates a
  blank one to the URL it is given. Every check calls the navigation of the driver at most
  once, with the configured URL, at the state it is entered in, and only when the page is
  blank there: replacing the navigation by any other function that agrees with it at that
  one point does not change the check, and on a loaded page no navigation is used at all.
  When the page is blank the navigation does happen: its fault is the check's outcome.
  \<^verbatim>\<open>runAll\<close> uses the navigation only at blank page states and with the configured URL.
\<close>

theorem ensurePage_navigates_only_when_blank:
  "(\<not> is_blank (page_url page s) \<longrightarrow> ensurePage page url s = Inr s)
  \<and> (is_blank (page_url page s) \<longrightarrow> ensurePage page url s = page_goto page url s)
  \<and> (\<forall>c \<in> set (checks parseFloat). \<forall>g.
       (is_blank (page_url page s) \<longrightarrow>
          g (cfg_url (merge_options options)) s = page_goto page (cfg_url (merge_options options)) s)
       \<longrightarrow> c (page\<lparr>page_goto := g\<rparr>) options s = c page options s)
  \<and> (\<forall>c \<in> set (checks parseFloat). \<forall>f.
       is_blank (page_url page s) \<and> page_goto page (cfg_url (merge_options options)) s = Inl f
       \<longrightarrow> c page options s = Inl f)
  \<and> (\<forall>g. (\<forall>st. is_blank (page_url page st) \<longrightarrow>
              g (cfg_url (merge_options options)) st = page_goto page (cfg_url (merge_options options)) st)
       \<longrightarrow> runAll parseFloat (page\<lparr>page_goto := g\<rparr>) options s = runAll parseFloat page options s)"
proof -
  have "\<not> is_blank (page_url page s) \<longrightarrow> ensurePage page url s = Inr s"
    and "is_blank (page_url page s) \<longrightarrow> ensurePage page url s = page_goto page url s"
    by (simp_all add: ensurePage_def)
  moreover have "\<forall>c \<in> set (checks parseFloat). \<forall>g.
       (is_blank (page_url page s) \<longrightarrow>
          g (cfg_url (merge_options options)) s = page_goto page (cfg_url (merge_options options)) s)
       \<longrightarrow> c (page\<lparr>page_goto := g\<rparr>) options s = c page options s"
    using check_goto [of _ parseFloat page s _ options] by blast
  moreover have "\<forall>c \<in> set (checks parseFloat). \<forall>f.
       is_blank (page_url page s) \<and> page_goto page (cfg_url (merge_options options)) s = Inl f
       \<longrightarrow> c page options s = Inl f"
    using check_goto_fault [of _ parseFloat page s options] by blast
  moreover have "\<forall>g. (\<forall>st. is_blank (page_url page st) \<longrightarrow>
              g (cfg_url (merge_options options)) st = page_goto page (cfg_url (merge_options options)) st)
       \<longrightarrow> runAll parseFloat (page\<lparr>page_goto := g\<rparr>) options s = runAll parseFloat page options s"
    using runAll_goto [of page _ options parseFloat s] by blast
  ultimately show ?thesis by blast
qed

theorem ensurePage_navigates_only_when_blank_witness:
  "ensurePage static_driver ''http://localhost:3000'' demo_page = Inr demo_page
   \<and> ensurePage static_driver ''http://localhost:3000'' blank_page
       = Inr (blank_page\<lparr> sp_url := ''http://localhost:3000'' \<rparr>)
   \<and> checkUserCards (static_driver\<lparr> page_goto := refusing_goto \<rparr>) no_options demo_page
       = checkUserCards static_driver no_options demo_page
   \<and> runAll parseFloat01 (static_driver\<lparr> page_goto := goto_if_blank \<rparr>) no_options demo_page
       = runAll parseFloat01 static_driver no_options demo_page"
proof -
  note t = ensurePage_navigates_only_when_blank [of static_driver demo_page "''http://localhost:3000''" parseFloat01 no_options]
  note b = ensurePage_navigates_only_when_blank [of static_driver blank_page "''http://localhost:3000''" parseFloat01 no_options]
  have loaded: "\<not> is_blank (page_url static_driver demo_page)"
    by (simp add: is_blank_def demo_page_def)
  have blank: "is_blank (page_url static_driver blank_page)"
    by (simp add: is_blank_def blank_page_def)
  have mem: "checkUserCards \<in> set (checks parseFloat01)"
    by (simp add: checks_def)
  have agree: "\<forall>st. is_blank (page_url static_driver st) \<longrightarrow>
     goto_if_blank (cfg_url (merge_options no_options)) st
     = page_goto static_driver (cfg_url (merge_options no_options)) st"
    by (simp add: goto_if_blank_def)
  from t loaded have "ensurePage static_driver ''http://localhost:3000'' demo_page = Inr demo_page"
    by blast
  moreover from b blank have "ensurePage static_driver ''http://localhost:3000'' blank_page
       = Inr (blank_page\<lparr> sp_url := ''http://localhost:3000'' \<rparr>)"
    by (simp add: if_open_def blank_page_def)
  moreover from t loaded mem
  have "checkUserCards (static_driver\<lparr> page_goto := refusing_goto \<rparr>) no_options demo_page
       = checkUserCards static_driver no_options demo_page"
    by blast
  moreover from t agree
  have "runAll parseFloat01 (static_driver\<lparr> page_goto := goto_if_blank \<rparr>) no_options demo_page
       = runAll parseFloat01 static_driver no_options demo_page"
    by blast
  ultimately show ?thesis by blast
qed

section \<open>The merge of the options\<close>





section \<open>The card-presence check\<close>

lemma userCards_loop_wellformed:
  assumes "\<forall>c \<in> set cards.
             (\<exists>e. el_query page c (sel ''userName'') s = Inr (Some e))
           \<and> (\<exists>e. el_query page c (sel ''userEmail'') s = Inr (Some e))
           \<and> (\<exists>e. el_query page c (sel ''userNationality'') s = Inr (Some e))"
  shows "userCards_loop page sel s i cards = Inr None"
  using assms by (induction cards arbitrary: i) auto

text \<open>
  Claim C6. On a page where the user-card selector matches nothing, the card-presence
  check returns \<open>ok\<close> false with \<open>details.count\<close> 0. On a page where it matches a
  non-empty list of cards, each of which holds a name, an email and a nationality
  element, it returns \<open>ok\<close> true with \<open>details.count\<close> the number of cards.
\<close>

theorem checkUserCards_count:
  assumes "ensurePage page (cfg_url (merge_options options)) s = Inr s1"
    and "page_query_all page (cfg_selectors (merge_options options) ''userCard'') s1 = Inr cards"
  shows "(cards = [] \<longrightarrow>
            checkUserCards page options s
            = Inr (\<lparr> ok = False, message = ''Nessuna user card trovata'',
                      details = Some (Count 0) \<rparr>, s1))
       \<and> (cards \<noteq> []
          \<and> (\<forall>c \<in> set cards.
                (\<exists>e. el_query page c (cfg_selectors (merge_options options) ''userName'') s1
                      = Inr (Some e))
              \<and> (\<exists>e. el_query page c (cfg_selectors (merge_options options) ''userEmail'') s1
                      = Inr (Some e))
              \<and> (\<exists>e. el_query page c (cfg_selectors (merge_options options) ''userNationality'') s1
                      = Inr (Some e)))
          \<longrightarrow> checkUserCards page options s
              = Inr (\<lparr> ok = True, message = ''User cards OK'',
                        details = Some (Count (length cards)) \<rparr>, s1))"
  using assms userCards_loop_wellformed [of cards page "cfg_selectors (merge_options options)" s1 0]
  by (auto simp: checkUserCards_def Let_def)

theorem checkUserCards_count_witness:
  "checkUserCards static_driver no_options empty_page
     = Inr (\<lparr> ok = False, message = ''Nessuna user card trovata'', details = Some (Count 0) \<rparr>,
            empty_page)
   \<and> checkUserCards static_driver no_options demo_page
     = Inr (\<lparr> ok = True, message = ''User cards OK'', details = Some (Count 3) \<rparr>, demo_page)"
proof -
  have e1: "ensurePage static_driver (cfg_url (merge_options no_options)) empty_page
            = Inr empty_page"
    by (simp add: page_defs run_defs)
  have q1: "page_query_all static_driver (cfg_selectors (merge_options no_options) ''userCard'')
              empty_page = Inr []"
    by (simp add: page_defs run_defs)
  have e2: "ensurePage static_driver (cfg_url (merge_options no_options)) demo_page
            = Inr demo_page"
    by (simp add: page_defs run_defs)
  have q2: "page_query_all static_driver (cfg_selectors (merge_options no_options) ''userCard'')
              demo_page = Inr [user_card, user_card, user_card]"
    by (simp add: demo_page_def run_defs)
  have wf: "\<forall>c \<in> set [user_card, user_card, user_card].
        (\<exists>e. el_query static_driver c (cfg_selectors (merge_options no_options) ''userName'')
                demo_page = Inr (Some e))
      \<and> (\<exists>e. el_query static_driver c (cfg_selectors (merge_options no_options) ''userEmail'')
                demo_page = Inr (Some e))
      \<and> (\<exists>e. el_query static_driver c
                (cfg_selectors (merge_options no_options) ''userNationality'')
                demo_page = Inr (Some e))"
    by (simp add: page_defs run_defs)
  from checkUserCards_count [OF e1 q1] checkUserCards_count [OF e2 q2] wf
  show ?thesis by simp
qed

section \<open>The refresh-recenter check\<close>

lemma checkRefreshCenters_run:
  assumes "ensurePage page (cfg_url (merge_options options)) s = Inr s1"
    and "page_query page (cfg_selectors (merge_options options) ''refresh'') s1 = Inr refresh"
    and "(case refresh of None \<Rightarrow> Inr s1 | Some r \<Rightarrow> el_click page r s1) = Inr s2"
    and "page_query page (cfg_selectors (merge_options options) ''userCard'') s2 = Inr (Some c)"
    and "el_boundingBox page c s2 = Inr (Some b)"
  shows "checkRefreshCenters page options s =
     (let viewport = (case page_viewportSize page s2 of
                        None \<Rightarrow> \<lparr> vp_width = 1024, vp_height = 768 \<rparr> | Some v \<Rightarrow> v);
          deltaX = \<bar>box_x b + box_width b / 2 - vp_width viewport / 2\<bar>;
          deltaY = \<bar>box_y b + box_height b / 2 - vp_height viewport / 2\<bar>;
          okv = (deltaX < vp_width viewport * 0.25 \<and> deltaY < vp_height viewport * 0.25)
      in Inr (\<lparr> ok = okv,
                 message = (if okv then ''Card centrata'' else ''Card non centrata''),
                 details = Some (Deltas deltaX deltaY viewport) \<rparr>, s2))"
  using assms by (simp add: checkRefreshCenters_def Let_def)

text \<open>
  Claim C5. When the refresh-recenter check reaches a card with a readable bounding box on
  a 1024 by 768 viewport: a card whose centre is the centre of the viewport yields \<open>ok\<close>
  true; a card whose centre is further than 25 percent of the viewport width (256) from
  the centre of the viewport on either axis yields \<open>ok\<close> false.
\<close>

theorem checkRefreshCenters_centering:
  assumes "ensurePage page (cfg_url (merge_options options)) s = Inr s1"
    and "page_query page (cfg_selectors (merge_options options) ''refresh'') s1 = Inr refresh"
    and "(case refresh of None \<Rightarrow> Inr s1 | Some r \<Rightarrow> el_click page r s1) = Inr s2"
    and "page_query page (cfg_selectors (merge_options options) ''userCard'') s2 = Inr (Some c)"
    and "el_boundingBox page c s2 = Inr (Some b)"
    and "page_viewportSize page s2 = Some \<lparr> vp_width = 1024, vp_height = 768 \<rparr>"
  shows "\<exists>r. checkRefreshCenters page options s = Inr (r, s2)
          \<and> (box_x b + box_width b / 2 = 1024 / 2 \<and> box_y b + box_height b / 2 = 768 / 2
               \<longrightarrow> ok r)
          \<and> (\<bar>box_x b + box_width b / 2 - 1024 / 2\<bar> > 1024 * 0.25
               \<or> \<bar>box_y b + box_height b / 2 - 768 / 2\<bar> > 1024 * 0.25
               \<longrightarrow> \<not> ok r)"
  using checkRefreshCenters_run [OF assms(1-5)] assms(6)
  by (auto simp: Let_def)

theorem checkRefreshCenters_centering_witness:
  "(\<exists>r. checkRefreshCenters static_driver no_options demo_page = Inr (r, demo_page) \<and> ok r)
   \<and> (\<exists>r. checkRefreshCenters static_driver no_options offcenter_page = Inr (r, offcenter_page)
         \<and> \<not> ok r)"
proof -
  have "\<exists>r. checkRefreshCenters static_driver no_options demo_page = Inr (r, demo_page)
          \<and> (412 + 200 / 2 = (1024 :: real) / 2 \<and> 284 + 200 / 2 = (768 :: real) / 2 \<longrightarrow> ok r)"
    using checkRefreshCenters_centering [of static_driver no_options demo_page demo_page "Some leaf" demo_page user_card
                 "\<lparr> box_x = 412, box_y = 284, box_width = 200, box_height = 200 \<rparr>"]
    by (simp add: page_defs offcenter_card_def offcenter_page_def run_defs)
  moreover
  have "\<exists>r. checkRefreshCenters static_driver no_options offcenter_page = Inr (r, offcenter_page)
          \<and> (\<bar>900 + 200 / 2 - (1024 :: real) / 2\<bar> > 1024 * 0.25 \<longrightarrow> \<not> ok r)"
    using checkRefreshCenters_centering [of static_driver no_options offcenter_page offcenter_page None offcenter_page
                 offcenter_card
                 "\<lparr> box_x = 900, box_y = 284, box_width = 200, box_height = 200 \<rparr>"]
    by (simp add: page_defs offcenter_card_def offcenter_page_def run_defs)
  ultimately show ?thesis by simp
qed

text \<open>
  Claim C10. When \<^verbatim>\<open>viewportSize()\<close> returns \<^verbatim>\<open>null\<close> at the state where the check reads it,
  the refresh-recenter check still returns a result; the viewport it reports in its
  details is 1024 by 768; a card whose centre is the point (512, 384) yields \<open>ok\<close> true
  and a card whose centre is further than 256 from it on either axis yields \<open>ok\<close>
  false; and the check returns what it returns on the same driver with a 1024 by 768
  viewport at that state.
\<close>

theorem checkRefreshCenters_null_viewport:
  assumes "ensurePage page (cfg_url (merge_options options)) s = Inr s1"
    and "page_query page (cfg_selectors (merge_options options) ''refresh'') s1 = Inr refresh"
    and "(case refresh of None \<Rightarrow> Inr s1 | Some r \<Rightarrow> el_click page r s1) = Inr s2"
    and "page_query page (cfg_selectors (merge_options options) ''userCard'') s2 = Inr (Some c)"
    and "el_boundingBox page c s2 = Inr (Some b)"
    and "page_viewportSize page s2 = None"
  shows "\<exists>r. checkRefreshCenters page options s = Inr (r, s2)
          \<and> (\<exists>deltaX deltaY.
                details r = Some (Deltas deltaX deltaY \<lparr> vp_width = 1024, vp_height = 768 \<rparr>))
          \<and> (box_x b + box_width b / 2 = 1024 / 2 \<and> box_y b + box_height b / 2 = 768 / 2
               \<longrightarrow> ok r)
          \<and> (\<bar>box_x b + box_width b / 2 - 1024 / 2\<bar> > 1024 * 0.25
               \<or> \<bar>box_y b + box_height b / 2 - 768 / 2\<bar> > 1024 * 0.25
               \<longrightarrow> \<not> ok r)
          \<and> checkRefreshCenters page options s
            = checkRefreshCenters
                (page\<lparr> page_viewportSize :=
                         (page_viewportSize page)(s2 := Some \<lparr> vp_width = 1024, vp_height = 768 \<rparr>) \<rparr>)
                options s"
proof -
  let ?page' = "page\<lparr> page_viewportSize :=
                         (page_viewportSize page)(s2 := Some \<lparr> vp_width = 1024, vp_height = 768 \<rparr>) \<rparr>"
  have e: "ensurePage ?page' (cfg_url (merge_options options)) s = Inr s1"
    using assms(1) by (auto simp: ensurePage_def split: if_splits)
  have q: "page_query ?page' (cfg_selectors (merge_options options) ''refresh'') s1 = Inr refresh"
    using assms(2) by simp
  have k: "(case refresh of None \<Rightarrow> Inr s1 | Some r \<Rightarrow> el_click ?page' r s1) = Inr s2"
    using assms(3) by (cases refresh) simp_all
  have u: "page_query ?page' (cfg_selectors (merge_options options) ''userCard'') s2 = Inr (Some c)"
    using assms(4) by simp
  have bb: "el_boundingBox ?page' c s2 = Inr (Some b)"
    using assms(5) by simp
  have "checkRefreshCenters ?page' options s = checkRefreshCenters page options s"
    using checkRefreshCenters_run [OF assms(1-5)] assms(6)
      checkRefreshCenters_run [OF e q k u bb]
    by (simp add: Let_def)
  then show ?thesis
    using checkRefreshCenters_run [OF assms(1-5)] assms(6)
    by (auto simp: Let_def)
qed

theorem checkRefreshCenters_null_viewport_witness:
  "\<exists>r. checkRefreshCenters static_driver no_options no_viewport_page = Inr (r, no_viewport_page)
       \<and> ok r
       \<and> (\<exists>deltaX deltaY.
             details r = Some (Deltas deltaX deltaY \<lparr> vp_width = 1024, vp_height = 768 \<rparr>))"
proof -
  have e: "ensurePage static_driver (cfg_url (merge_options no_options)) no_viewport_page
           = Inr no_viewport_page"
    by (simp add: page_defs no_viewport_page_def run_defs)
  have q: "page_query static_driver (cfg_selectors (merge_options no_options) ''refresh'')
             no_viewport_page = Inr (Some leaf)"
    by (simp add: page_defs no_viewport_page_def run_defs)
  have k: "(case Some leaf of None \<Rightarrow> Inr no_viewport_page
            | Some r \<Rightarrow> el_click static_driver r no_viewport_page) = Inr no_viewport_page"
    by (simp add: page_defs no_viewport_page_def run_defs)
  have u: "page_query static_driver (cfg_selectors (merge_options no_options) ''userCard'')
             no_viewport_page = Inr (Some user_card)"
    by (simp add: no_viewport_page_def demo_page_def run_defs)
  have b: "el_boundingBox static_driver user_card no_viewport_page
           = Inr (Some \<lparr> box_x = 412, box_y = 284, box_width = 200, box_height = 200 \<rparr>)"
    by (simp add: page_defs no_viewport_page_def run_defs)
  have v: "page_viewportSize static_driver no_viewport_page = None"
    by (simp add: page_defs no_viewport_page_def)
  from checkRefreshCenters_null_viewport [OF e q k u b v]
  obtain r where
    "checkRefreshCenters static_driver no_options no_viewport_page = Inr (r, no_viewport_page)"
    "\<exists>deltaX deltaY.
       details r = Some (Deltas deltaX deltaY \<lparr> vp_width = 1024, vp_height = 768 \<rparr>)"
    "412 + 200 / 2 = (1024 :: real) / 2 \<and> 284 + 200 / 2 = (768 :: real) / 2 \<longrightarrow> ok r"
    by auto
  then show ?thesis by auto
qed

section \<open>The documentation-anchor check\<close>

lemma anchors_loop_first_broken:
  assumes "\<forall>p \<in> set pre. \<exists>h. el_getAttribute page p ''href'' s = Inr h
             \<and> (\<forall>i. h = Some (CHR ''#'' # i)
                   \<longrightarrow> (\<exists>t. page_query page (Some (''#'' @ i)) s = Inr (Some t)))"
    and "el_getAttribute page a ''href'' s = Inr (Some (CHR ''#'' # ident))"
    and "page_query page (Some (''#'' @ ident)) s = Inr None"
  shows "anchors_loop page s (pre @ a # post)
         = Inr (Some \<lparr> ok = False, message = ''Anchor punta a id mancante: '' @ ident,
                        details = None \<rparr>)"
  using assms
proof (induction pre)
  case Nil
  then show ?case by simp
next
  case (Cons p pre)
  from Cons.prems(1) obtain h where h: "el_getAttribute page p ''href'' s = Inr h"
    "\<forall>i. h = Some (CHR ''#'' # i) \<longrightarrow> (\<exists>t. page_query page (Some (''#'' @ i)) s = Inr (Some t))"
    by auto
  have "anchors_loop page s ((p # pre) @ a # post) = anchors_loop page s (pre @ a # post)"
    using h by (auto split: option.splits list.splits)
  with Cons show ?case by simp
qed

lemma anchors_loop_some_broken:
  assumes "a \<in> set anchors"
    and "el_getAttribute page a ''href'' s = Inr (Some (CHR ''#'' # ident))"
    and "page_query page (Some (''#'' @ ident)) s = Inr None"
    and "\<forall>p \<in> set anchors. \<exists>h. el_getAttribute page p ''href'' s = Inr h
             \<and> (\<forall>i. h = Some (CHR ''#'' # i)
                   \<longrightarrow> (\<exists>t. page_query page (Some (''#'' @ i)) s = Inr t))"
  shows "\<exists>ident'. anchors_loop page s anchors
           = Inr (Some \<lparr> ok = False, message = ''Anchor punta a id mancante: '' @ ident',
                          details = None \<rparr>)
         \<and> (\<exists>a' \<in> set anchors. el_getAttribute page a' ''href'' s = Inr (Some (CHR ''#'' # ident'))
               \<and> page_query page (Some (''#'' @ ident')) s = Inr None)"
  using assms
proof (induction anchors)
  case Nil
  then show ?case by simp
next
  case (Cons p anchors)
  from Cons.prems(4) obtain h where h: "el_getAttribute page p ''href'' s = Inr h"
    "\<forall>i. h = Some (CHR ''#'' # i) \<longrightarrow> (\<exists>t. page_query page (Some (''#'' @ i)) s = Inr t)"
    by auto
  show ?case
  proof (cases "\<exists>i. h = Some (CHR ''#'' # i) \<and> page_query page (Some (''#'' @ i)) s = Inr None")
    case True
    then obtain i where i: "h = Some (CHR ''#'' # i)" "page_query page (Some (''#'' @ i)) s = Inr None"
      by blast
    with h have "anchors_loop page s (p # anchors)
           = Inr (Some \<lparr> ok = False, message = ''Anchor punta a id mancante: '' @ i,
                          details = None \<rparr>)"
      by simp
    moreover have "\<exists>a' \<in> set (p # anchors). el_getAttribute page a' ''href'' s = Inr (Some (CHR ''#'' # i))
               \<and> page_query page (Some (''#'' @ i)) s = Inr None"
      using h i by auto
    ultimately show ?thesis by blast
  next
    case False
    with h have skip: "anchors_loop page s (p # anchors) = anchors_loop page s anchors"
      by (auto split: option.splits list.splits)
    from False h Cons.prems(2,3) have "a \<noteq> p" by auto
    with Cons.prems(1) have "a \<in> set anchors" by simp
    from Cons.IH [OF this Cons.prems(2,3)] Cons.prems(4)
    obtain ident' where "anchors_loop page s anchors
           = Inr (Some \<lparr> ok = False, message = ''Anchor punta a id mancante: '' @ ident',
                          details = None \<rparr>)"
       "\<exists>a' \<in> set anchors. el_getAttribute page a' ''href'' s = Inr (Some (CHR ''#'' # ident'))
               \<and> page_query page (Some (''#'' @ ident')) s = Inr None"
      by auto
    with skip show ?thesis by auto
  qed
qed

text \<open>
  What the check reports when the driver answers its queries. With the documentation
  section absent it fails with one message; with the section present and no internal
  anchor in it, it fails with another message. When the query for an anchor's target
  finds no element and every anchor before it resolves or is skipped, the check fails
  with a message that ends in that id.
\<close>

lemma checkDocumentationAnchors_reports:
  assumes "ensurePage page (cfg_url (merge_options options)) s = Inr s1"
    and "page_query page (cfg_selectors (merge_options options) ''documentation'') s1 = Inr docs"
  shows "(docs = None \<longrightarrow>
            checkDocumentationAnchors page options s
            = Inr (\<lparr> ok = False, message = ''Sezione documentazione non trovata'',
                      details = None \<rparr>, s1))
       \<and> (\<forall>dc. docs = Some dc \<and> el_query_all page dc (Some INTERNAL_ANCHORS) s1 = Inr []
            \<longrightarrow> checkDocumentationAnchors page options s
                = Inr (\<lparr> ok = False, message = ''Nessun anchor interno nella documentazione'',
                          details = None \<rparr>, s1))
       \<and> ''Sezione documentazione non trovata'' \<noteq> ''Nessun anchor interno nella documentazione''
       \<and> (\<forall>dc pre a post ident.
            docs = Some dc
          \<and> el_query_all page dc (Some INTERNAL_ANCHORS) s1 = Inr (pre @ a # post)
          \<and> (\<forall>p \<in> set pre. \<exists>h. el_getAttribute page p ''href'' s1 = Inr h
                \<and> (\<forall>i. h = Some (CHR ''#'' # i)
                      \<longrightarrow> (\<exists>t. page_query page (Some (''#'' @ i)) s1 = Inr (Some t))))
          \<and> el_getAttribute page a ''href'' s1 = Inr (Some (CHR ''#'' # ident))
          \<and> page_query page (Some (''#'' @ ident)) s1 = Inr None
          \<longrightarrow> checkDocumentationAnchors page options s
              = Inr (\<lparr> ok = False, message = ''Anchor punta a id mancante: '' @ ident,
                        details = None \<rparr>, s1))
       \<and> (\<forall>dc anchors a ident.
            docs = Some dc
          \<and> el_query_all page dc (Some INTERNAL_ANCHORS) s1 = Inr anchors
          \<and> a \<in> set anchors
          \<and> el_getAttribute page a ''href'' s1 = Inr (Some (CHR ''#'' # ident))
          \<and> page_query page (Some (''#'' @ ident)) s1 = Inr None
          \<and> (\<forall>p \<in> set anchors. \<exists>h. el_getAttribute page p ''href'' s1 = Inr h
                \<and> (\<forall>i. h = Some (CHR ''#'' # i)
                      \<longrightarrow> (\<exists>t. page_query page (Some (''#'' @ i)) s1 = Inr t)))
          \<longrightarrow> (\<exists>ident'. checkDocumentationAnchors page options s
                  = Inr (\<lparr> ok = False, message = ''Anchor punta a id mancante: '' @ ident',
                            details = None \<rparr>, s1)
                \<and> (\<exists>a' \<in> set anchors.
                      el_getAttribute page a' ''href'' s1 = Inr (Some (CHR ''#'' # ident'))
                    \<and> page_query page (Some (''#'' @ ident')) s1 = Inr None)))"
proof -
  have none: "docs = None \<longrightarrow>
            checkDocumentationAnchors page options s
            = Inr (\<lparr> ok = False, message = ''Sezione documentazione non trovata'',
                      details = None \<rparr>, s1)"
    using assms by (simp add: checkDocumentationAnchors_def Let_def)
  have empty: "\<forall>dc. docs = Some dc \<and> el_query_all page dc (Some INTERNAL_ANCHORS) s1 = Inr []
            \<longrightarrow> checkDocumentationAnchors page options s
                = Inr (\<lparr> ok = False, message = ''Nessun anchor interno nella documentazione'',
                          details = None \<rparr>, s1)"
    using assms by (simp add: checkDocumentationAnchors_def Let_def)
  have differ: "''Sezione documentazione non trovata'' \<noteq> ''Nessun anchor interno nella documentazione''"
    by simp
  have run: "checkDocumentationAnchors page options s = Inr (r, s1)"
    if "docs = Some dc" "el_query_all page dc (Some INTERNAL_ANCHORS) s1 = Inr anchors"
       "anchors \<noteq> []" "anchors_loop page s1 anchors = Inr (Some r)" for dc anchors r
    using assms that by (simp add: checkDocumentationAnchors_def Let_def)
  have first: "\<forall>dc pre a post ident.
            docs = Some dc
          \<and> el_query_all page dc (Some INTERNAL_ANCHORS) s1 = Inr (pre @ a # post)
          \<and> (\<forall>p \<in> set pre. \<exists>h. el_getAttribute page p ''href'' s1 = Inr h
                \<and> (\<forall>i. h = Some (CHR ''#'' # i)
                      \<longrightarrow> (\<exists>t. page_query page (Some (''#'' @ i)) s1 = Inr (Some t))))
          \<and> el_getAttribute page a ''href'' s1 = Inr (Some (CHR ''#'' # ident))
          \<and> page_query page (Some (''#'' @ ident)) s1 = Inr None
          \<longrightarrow> checkDocumentationAnchors page options s
              = Inr (\<lparr> ok = False, message = ''Anchor punta a id mancante: '' @ ident,
                        details = None \<rparr>, s1)"
  proof (intro allI impI, elim conjE)
    fix dc pre a post ident
    assume a: "docs = Some dc" "el_query_all page dc (Some INTERNAL_ANCHORS) s1 = Inr (pre @ a # post)"
      "\<forall>p \<in> set pre. \<exists>h. el_getAttribute page p ''href'' s1 = Inr h
                \<and> (\<forall>i. h = Some (CHR ''#'' # i)
                      \<longrightarrow> (\<exists>t. page_query page (Some (''#'' @ i)) s1 = Inr (Some t)))"
      "el_getAttribute page a ''href'' s1 = Inr (Some (CHR ''#'' # ident))"
      "page_query page (Some (''#'' @ ident)) s1 = Inr None"
    show "checkDocumentationAnchors page options s
              = Inr (\<lparr> ok = False, message = ''Anchor punta a id mancante: '' @ ident,
                        details = None \<rparr>, s1)"
      by (rule run [OF a(1,2) _ anchors_loop_first_broken [OF a(3,4,5)]]) simp
  qed
  have some: "\<forall>dc anchors a ident.
            docs = Some dc
          \<and> el_query_all page dc (Some INTERNAL_ANCHORS) s1 = Inr anchors
          \<and> a \<in> set anchors
          \<and> el_getAttribute page a ''href'' s1 = Inr (Some (CHR ''#'' # ident))
          \<and> page_query page (Some (''#'' @ ident)) s1 = Inr None
          \<and> (\<forall>p \<in> set anchors. \<exists>h. el_getAttribute page p ''href'' s1 = Inr h
                \<and> (\<forall>i. h = Some (CHR ''#'' # i)
                      \<longrightarrow> (\<exists>t. page_query page (Some (''#'' @ i)) s1 = Inr t)))
          \<longrightarrow> (\<exists>ident'. checkDocumentationAnchors page options s
                  = Inr (\<lparr> ok = False, message = ''Anchor punta a id mancante: '' @ ident',
                            details = None \<rparr>, s1)
                \<and> (\<exists>a' \<in> set anchors.
                      el_getAttribute page a' ''href'' s1 = Inr (Some (CHR ''#'' # ident'))
                    \<and> page_query page (Some (''#'' @ ident')) s1 = Inr None))"
  proof (intro allI impI, elim conjE)
    fix dc anchors a ident
    assume a: "docs = Some dc" "el_query_all page dc (Some INTERNAL_ANCHORS) s1 = Inr anchors"
      "a \<in> set anchors"
      "el_getAttribute page a ''href'' s1 = Inr (Some (CHR ''#'' # ident))"
      "page_query page (Some (''#'' @ ident)) s1 = Inr None"
      "\<forall>p \<in> set anchors. \<exists>h. el_getAttribute page p ''href'' s1 = Inr h
                \<and> (\<forall>i. h = Some (CHR ''#'' # i)
                      \<longrightarrow> (\<exists>t. page_query page (Some (''#'' @ i)) s1 = Inr t))"
    from anchors_loop_some_broken [OF a(3,4,5,6)]
    obtain ident' where l: "anchors_loop page s1 anchors
           = Inr (Some \<lparr> ok = False, message = ''Anchor punta a id mancante: '' @ ident',
                          details = None \<rparr>)"
      and b: "\<exists>a' \<in> set anchors. el_getAttribute page a' ''href'' s1 = Inr (Some (CHR ''#'' # ident'))
               \<and> page_query page (Some (''#'' @ ident')) s1 = Inr None"
      by blast
    from a(3) have "anchors \<noteq> []" by auto
    from run [OF a(1,2) this l] b
    show "\<exists>ident'. checkDocumentationAnchors page options s
                  = Inr (\<lparr> ok = False, message = ''Anchor punta a id mancante: '' @ ident',
                            details = None \<rparr>, s1)
                \<and> (\<exists>a' \<in> set anchors.
                      el_getAttribute page a' ''href'' s1 = Inr (Some (CHR ''#'' # ident'))
                    \<and> page_query page (Some (''#'' @ ident')) s1 = Inr None)"
      by blast
  qed
  from none empty differ first some show ?thesis by (intro conjI)
qed

lemma checkDocumentationAnchors_reports_examples:
  "checkDocumentationAnchors static_driver no_options broken_docs_page
     = Inr (\<lparr> ok = False, message = ''Anchor punta a id mancante: missing'', details = None \<rparr>,
            broken_docs_page)
   \<and> checkDocumentationAnchors static_driver no_options no_anchor_docs_page
     = Inr (\<lparr> ok = False, message = ''Nessun anchor interno nella documentazione'',
               details = None \<rparr>, no_anchor_docs_page)
   \<and> checkDocumentationAnchors static_driver no_options empty_page
     = Inr (\<lparr> ok = False, message = ''Sezione documentazione non trovata'', details = None \<rparr>,
            empty_page)"
proof -
  have e1: "ensurePage static_driver (cfg_url (merge_options no_options)) broken_docs_page
            = Inr broken_docs_page"
    by (simp add: page_defs anchor_to_def broken_docs_def broken_docs_page_def no_anchor_docs_page_def run_defs)
  have d1: "page_query static_driver (cfg_selectors (merge_options no_options) ''documentation'')
              broken_docs_page = Inr (Some broken_docs)"
    by (simp add: broken_docs_page_def demo_page_def run_defs)
  have h1: "el_query_all static_driver broken_docs (Some INTERNAL_ANCHORS) broken_docs_page
            = Inr ([anchor_to ''intro''] @ anchor_to ''missing'' # [])"
    by (simp add: broken_docs_page_def broken_docs_def demo_page_def run_defs)
  have h2: "\<forall>p \<in> set [anchor_to ''intro''].
              \<exists>h. el_getAttribute static_driver p ''href'' broken_docs_page = Inr h
                \<and> (\<forall>i. h = Some (CHR ''#'' # i)
                      \<longrightarrow> (\<exists>t. page_query static_driver (Some (''#'' @ i)) broken_docs_page
                                = Inr (Some t)))"
    by (simp add: page_defs anchor_to_def broken_docs_def broken_docs_page_def no_anchor_docs_page_def run_defs)
  have h3: "el_getAttribute static_driver (anchor_to ''missing'') ''href'' broken_docs_page
            = Inr (Some (CHR ''#'' # ''missing''))"
    by (simp add: page_defs anchor_to_def broken_docs_def broken_docs_page_def no_anchor_docs_page_def run_defs)
  have h4: "page_query static_driver (Some (''#'' @ ''missing'')) broken_docs_page = Inr None"
    by (simp add: page_defs anchor_to_def broken_docs_def broken_docs_page_def no_anchor_docs_page_def run_defs)
  from checkDocumentationAnchors_reports [OF e1 d1] h1 h2 h3 h4
  have a: "checkDocumentationAnchors static_driver no_options broken_docs_page
     = Inr (\<lparr> ok = False, message = ''Anchor punta a id mancante: '' @ ''missing'',
               details = None \<rparr>, broken_docs_page)"
    by blast
  have e2: "ensurePage static_driver (cfg_url (merge_options no_options)) no_anchor_docs_page
            = Inr no_anchor_docs_page"
    by (simp add: page_defs anchor_to_def broken_docs_def broken_docs_page_def no_anchor_docs_page_def run_defs)
  have d2: "page_query static_driver (cfg_selectors (merge_options no_options) ''documentation'')
              no_anchor_docs_page = Inr (Some leaf)"
    by (simp add: no_anchor_docs_page_def demo_page_def run_defs)
  have "el_query_all static_driver leaf (Some INTERNAL_ANCHORS) no_anchor_docs_page = Inr []"
    by (simp add: page_defs anchor_to_def broken_docs_def broken_docs_page_def no_anchor_docs_page_def run_defs)
  with checkDocumentationAnchors_reports [OF e2 d2]
  have b: "checkDocumentationAnchors static_driver no_options no_anchor_docs_page
     = Inr (\<lparr> ok = False, message = ''Nessun anchor interno nella documentazione'',
               details = None \<rparr>, no_anchor_docs_page)"
    by blast
  have e3: "ensurePage static_driver (cfg_url (merge_options no_options)) empty_page
            = Inr empty_page"
    by (simp add: page_defs anchor_to_def broken_docs_def broken_docs_page_def no_anchor_docs_page_def run_defs)
  have d3: "page_query static_driver (cfg_selectors (merge_options no_options) ''documentation'')
              empty_page = Inr None"
    by (simp add: page_defs anchor_to_def broken_docs_def broken_docs_page_def no_anchor_docs_page_def run_defs)
  from checkDocumentationAnchors_reports [OF e3 d3]
  have c: "checkDocumentationAnchors static_driver no_options empty_page
     = Inr (\<lparr> ok = False, message = ''Sezione documentazione non trovata'', details = None \<rparr>,
            empty_page)"
    by blast
  from a b c show ?thesis by simp
qed

text \<open>
  Claim C7 fails on the code. The check builds the target selector as \<^verbatim>\<open>`#${id}`\<close> from
  whatever follows the hash of the \<^verbatim>\<open>href\<close>, with no guard for an empty id. For the anchor
  \<^verbatim>\<open><a href="#">\<close>, which the selector \<^verbatim>\<open>a[href^="#"]\<close> collects, the id is empty and no
  element of the page has it; the check queries the selector \<^verbatim>\<open>#\<close>, the driver refuses
  it, and the check throws instead of returning \<open>ok\<close> false with a message naming
  the id.
\<close>

theorem checkDocumentationAnchors_hash_href_throws:
  "page_query css_checking_driver (cfg_selectors (merge_options no_options) ''documentation'')
     hash_anchor_page = Inr (Some hash_docs)
   \<and> el_query_all css_checking_driver hash_docs (Some INTERNAL_ANCHORS) hash_anchor_page
     = Inr [anchor_to []]
   \<and> el_getAttribute css_checking_driver (anchor_to []) ''href'' hash_anchor_page
     = Inr (Some ''#'')
   \<and> checkDocumentationAnchors css_checking_driver no_options hash_anchor_page
     = Inl invalid_selector_fault"
  by (simp add: checkDocumentationAnchors_def css_checking_driver_def hash_docs_def
        hash_anchor_page_def anchor_to_def INTERNAL_ANCHORS_def demo_page_def run_defs)

section \<open>Absent elements and driver faults\<close>


















lemma same_or_fault_refl [simp]: "same_or_fault f x x"
  by (simp add: same_or_fault_def)







































end
